theory Spec2Isabelle
  imports Complex_Main
begin

section \<open>JavaScript values\<close>

text \<open>
  A JavaScript number is modelled as an exact real, one of the two infinities, or NaN.
  Arithmetic on finite numbers is exact (the rounding of IEEE doubles and overflow to an
  infinity are not modelled), and zero carries no sign: a division by zero takes the sign
  of its result from the numerator, as a division by \<open>+0\<close> does. Everything else follows
  the language: \<open>0/0\<close>, \<open>Infinity - Infinity\<close> and \<open>0 * Infinity\<close> are NaN, NaN is
  contagious, and every comparison with NaN is false.
\<close>

datatype jsnum = Num real | PInf | NInf | NaN

fun js_neg :: "jsnum \<Rightarrow> jsnum" where
  "js_neg (Num x) = Num (- x)"
| "js_neg PInf = NInf"
| "js_neg NInf = PInf"
| "js_neg NaN = NaN"

fun js_add :: "jsnum \<Rightarrow> jsnum \<Rightarrow> jsnum" where
  "js_add NaN _ = NaN"
| "js_add _ NaN = NaN"
| "js_add (Num x) (Num y) = Num (x + y)"
| "js_add PInf NInf = NaN"
| "js_add NInf PInf = NaN"
| "js_add PInf _ = PInf"
| "js_add _ PInf = PInf"
| "js_add NInf _ = NInf"
| "js_add _ NInf = NInf"

definition js_sub :: "jsnum \<Rightarrow> jsnum \<Rightarrow> jsnum" where
  "js_sub a b = js_add a (js_neg b)"

text \<open>The sign of an infinity times (or divided by) a finite factor.\<close>

definition inf_signed :: "bool \<Rightarrow> jsnum" where
  "inf_signed positive = (if positive then PInf else NInf)"

fun js_mul :: "jsnum \<Rightarrow> jsnum \<Rightarrow> jsnum" where
  "js_mul NaN _ = NaN"
| "js_mul _ NaN = NaN"
| "js_mul (Num x) (Num y) = Num (x * y)"
| "js_mul (Num x) PInf = (if x = 0 then NaN else inf_signed (0 < x))"
| "js_mul (Num x) NInf = (if x = 0 then NaN else inf_signed (x < 0))"
| "js_mul PInf (Num y) = (if y = 0 then NaN else inf_signed (0 < y))"
| "js_mul NInf (Num y) = (if y = 0 then NaN else inf_signed (y < 0))"
| "js_mul PInf PInf = PInf"
| "js_mul NInf NInf = PInf"
| "js_mul PInf NInf = NInf"
| "js_mul NInf PInf = NInf"

fun js_div :: "jsnum \<Rightarrow> jsnum \<Rightarrow> jsnum" where
  "js_div NaN _ = NaN"
| "js_div _ NaN = NaN"
| "js_div (Num x) (Num y) =
     (if y = 0 then (if x = 0 then NaN else inf_signed (0 < x)) else Num (x / y))"
| "js_div (Num x) _ = Num 0"
| "js_div PInf (Num y) = inf_signed (0 \<le> y)"
| "js_div NInf (Num y) = inf_signed (y < 0)"
| "js_div _ _ = NaN"

fun js_lt :: "jsnum \<Rightarrow> jsnum \<Rightarrow> bool" where
  "js_lt NaN _ = False"
| "js_lt _ NaN = False"
| "js_lt (Num x) (Num y) = (x < y)"
| "js_lt _ NInf = False"
| "js_lt PInf _ = False"
| "js_lt _ _ = True"

definition js_gt :: "jsnum \<Rightarrow> jsnum \<Rightarrow> bool" where
  "js_gt a b = js_lt b a"

text \<open>\<open>Math.min\<close> and \<open>Math.max\<close> of two numbers: NaN when either argument is NaN.\<close>

fun js_min :: "jsnum \<Rightarrow> jsnum \<Rightarrow> jsnum" where
  "js_min NaN _ = NaN"
| "js_min _ NaN = NaN"
| "js_min a b = (if js_lt b a then b else a)"

fun js_max :: "jsnum \<Rightarrow> jsnum \<Rightarrow> jsnum" where
  "js_max NaN _ = NaN"
| "js_max _ NaN = NaN"
| "js_max a b = (if js_lt a b then b else a)"

text \<open>
  Property values of the objects the components handle: \<open>undefined\<close>, or a string.
  An object is a finite map from its own keys; reading an absent key gives \<open>undefined\<close>.
\<close>

datatype jsval = JUndefined | JStr string

type_synonym jsobj = "string \<rightharpoonup> jsval"


text \<open>\<open>Object.assign(target, source)\<close>: every own key of the source is written to the target.\<close>

definition object_assign :: "jsobj \<Rightarrow> jsobj \<Rightarrow> jsobj" where
  "object_assign target source = target ++ source"

text \<open>Truthiness of an optional string (\<open>undefined\<close> and the empty string are falsy).\<close>

fun truthy_str :: "string option \<Rightarrow> bool" where
  "truthy_str None = False"
| "truthy_str (Some s) = (s \<noteq> [])"

text \<open>Truthiness of an optional boolean (\<open>undefined\<close> is falsy).\<close>

fun truthy :: "bool option \<Rightarrow> bool" where
  "truthy None = False"
| "truthy (Some b) = b"

section \<open>Slider\<close>

text \<open>
  The props the handlers read (\<open>DataProps\<close> of \<open>Slider/index.tsx\<close>), after React
  has filled in \<open>defaultProps\<close>.
\<close>

record slider_props =
  minValue :: jsnum
  maxValue :: jsnum
  initValue :: jsnum
  barBackground :: "string option"
  barBackgroundImage :: "string option"

definition Slider_defaultProps :: slider_props where
  "Slider_defaultProps =
     \<lparr>minValue = Num 0, maxValue = Num 100, initValue = Num 50,
      barBackground = None, barBackgroundImage = None\<rparr>"

text \<open>The two callbacks of the props; the log records every call with its argument.\<close>

datatype callback_call = OnChangeValue jsnum | OnChangeValueRatio jsnum

text \<open>
  Listeners on \<open>window\<close>: the two bound methods the slider registers, and listeners of
  other code. \<open>addEventListener\<close> ignores a registration that is already there, so a
  pair of event type and listener is registered at most once.
\<close>

datatype listener = SetValueByEvent | HandelMouseUp | Foreign string

type_synonym registration = "string \<times> listener"

definition addEventListener :: "string \<Rightarrow> listener \<Rightarrow> registration list \<Rightarrow> registration list" where
  "addEventListener t h ls = (if (t, h) \<in> set ls then ls else ls @ [(t, h)])"

definition removeEventListener :: "string \<Rightarrow> listener \<Rightarrow> registration list \<Rightarrow> registration list" where
  "removeEventListener t h ls = removeAll (t, h) ls"

text \<open>What a handler reads of a mouse event, and of the layout when it runs.\<close>

record mouse_event =
  etype :: string
  clientX :: jsnum

record layout =
  rootLeft :: jsnum
  rootWidth :: jsnum
  controllerElmWidth :: jsnum

text \<open>An inline \<open>translateX(p%)\<close>, by its percentage.\<close>

datatype transform = TranslateX jsnum

text \<open>
  Everything the slider's methods read or write: the component instance (props, state,
  \<open>originBodyStyle\<close>, the inline transforms it sets on its two elements), the style
  object of \<open>document.body\<close>, the listeners of \<open>window\<close>, and the log of callback calls.
  \<open>setState\<close> is applied at once.
\<close>

record slider =
  props :: slider_props
  currValue :: jsnum
  valueRatio :: jsnum
  hovered :: "bool option"
  dragging :: "bool option"
  originBodyStyle :: jsobj
  barElmTransform :: "transform option"
  controllerWrapperElmTransform :: "transform option"
  bodyStyle :: jsobj
  windowListeners :: "registration list"
  calls :: "callback_call list"

text \<open>
  Construction (the field initialisers, lines 46 to 51): \<open>originBodyStyle\<close> is a copy of
  the body's style object as it is then, and the state is seeded from the props.
\<close>

definition Slider_new :: "slider_props \<Rightarrow> jsobj \<Rightarrow> registration list \<Rightarrow> slider" where
  "Slider_new p body ls =
     \<lparr>props = p,
      currValue = initValue p,
      valueRatio = js_div (initValue p) (js_sub (maxValue p) (minValue p)),
      hovered = None,
      dragging = None,
      originBodyStyle = body,
      barElmTransform = None,
      controllerWrapperElmTransform = None,
      bodyStyle = body,
      windowListeners = ls,
      calls = []\<rparr>"

definition handelMouseEnter :: "slider \<Rightarrow> slider" where
  "handelMouseEnter s = s\<lparr>hovered := Some True\<rparr>"

definition handelMouseLeave :: "slider \<Rightarrow> slider" where
  "handelMouseLeave s = s\<lparr>hovered := Some False\<rparr>"

definition setValueByEvent :: "mouse_event \<Rightarrow> layout \<Rightarrow> slider \<Rightarrow> slider" where
  "setValueByEvent e lay s =
     (let s1 = (if etype e = ''mousemove'' \<and> \<not> truthy (dragging s)
                then s\<lparr>dragging := Some True\<rparr> else s);
          useCustomBackground =
            (truthy_str (barBackground (props s)) \<or> truthy_str (barBackgroundImage (props s)));
          mouseLeft = clientX e;
          raw = js_div (js_sub mouseLeft (rootLeft lay))
                       (js_sub (rootWidth lay) (controllerElmWidth lay));
          ratio = (if js_lt raw (Num 0) then Num 0
                   else if js_gt raw (Num 1) then Num 1 else raw);
          cv = js_add (minValue (props s))
                      (js_mul (js_sub (maxValue (props s)) (minValue (props s))) ratio);
          s2 = s1\<lparr>currValue := cv, valueRatio := ratio\<rparr>;
          s3 = (if \<not> useCustomBackground
                then s2\<lparr>barElmTransform :=
                         Some (TranslateX (js_mul (js_sub ratio (Num 1)) (Num 100)))\<rparr>
                else s2);
          s4 = s3\<lparr>controllerWrapperElmTransform :=
                     Some (TranslateX (js_mul ratio (Num 100)))\<rparr>
      in s4\<lparr>calls := calls s4 @ [OnChangeValue cv]\<rparr>)"

definition handelOnClick :: "mouse_event \<Rightarrow> layout \<Rightarrow> slider \<Rightarrow> slider" where
  "handelOnClick e lay s = setValueByEvent e lay s"

definition dragOverride :: jsobj where
  "dragOverride =
     [''userSelect'' \<mapsto> JStr ''none'', ''msUserSelect'' \<mapsto> JStr ''none'',
      ''webkitUserSelect'' \<mapsto> JStr ''none'', ''cursor'' \<mapsto> JStr ''default'']"

definition handelMouseDown :: "mouse_event \<Rightarrow> layout \<Rightarrow> slider \<Rightarrow> slider" where
  "handelMouseDown e lay s =
     setValueByEvent e lay
       (s\<lparr>bodyStyle := object_assign (bodyStyle s) dragOverride,
          windowListeners :=
            addEventListener ''mouseup'' HandelMouseUp
              (addEventListener ''mousemove'' SetValueByEvent (windowListeners s))\<rparr>)"

text \<open>
  The object literal of \<open>handelMouseUp\<close>: four keys set to \<open>undefined\<close>, then the spread
  of \<open>originBodyStyle\<close>, whose keys win.
\<close>

definition restoreSource :: "jsobj \<Rightarrow> jsobj" where
  "restoreSource origin =
     [''userSelect'' \<mapsto> JUndefined, ''msUserSelect'' \<mapsto> JUndefined,
      ''webkitUserSelect'' \<mapsto> JUndefined, ''cursor'' \<mapsto> JUndefined] ++ origin"

definition handelMouseUp :: "slider \<Rightarrow> slider" where
  "handelMouseUp s =
     s\<lparr>bodyStyle := object_assign (bodyStyle s) (restoreSource (originBodyStyle s)),
       dragging := Some False,
       windowListeners :=
         removeEventListener ''mouseup'' HandelMouseUp
           (removeEventListener ''mousemove'' SetValueByEvent (windowListeners s))\<rparr>"

text \<open>
  Delivery of the mouse events, as \<open>render\<close> wires them: the root element has
  \<open>onMouseEnter\<close>, \<open>onMouseLeave\<close>, \<open>onMouseDown\<close> and \<open>onMouseUp\<close> (and no
  \<open>onClick\<close>: \<open>handelOnClick\<close> is attached to nothing); a mouse move or a mouse up
  anywhere reaches the listeners that are registered on \<open>window\<close> at that moment.
  \<open>MouseUp inside\<close> says whether the button was released over the root element.
\<close>

datatype dom_event =
    MouseEnter
  | MouseLeave
  | MouseDown jsnum layout
  | MouseMove jsnum layout
  | MouseUp bool
  | Click jsnum layout

fun dispatch :: "slider \<Rightarrow> dom_event \<Rightarrow> slider" where
  "dispatch s MouseEnter = handelMouseEnter s"
| "dispatch s MouseLeave = handelMouseLeave s"
| "dispatch s (MouseDown x lay) = handelMouseDown \<lparr>etype = ''mousedown'', clientX = x\<rparr> lay s"
| "dispatch s (MouseMove x lay) =
     (if (''mousemove'', SetValueByEvent) \<in> set (windowListeners s)
      then setValueByEvent \<lparr>etype = ''mousemove'', clientX = x\<rparr> lay s else s)"
| "dispatch s (MouseUp inside) =
     (let s1 = (if inside then handelMouseUp s else s)
      in if (''mouseup'', HandelMouseUp) \<in> set (windowListeners s1)
         then handelMouseUp s1 else s1)"
| "dispatch s (Click x lay) = s"


text \<open>Direct calls of the methods, in any order, whether or not anything is wired to them.\<close>

datatype handler_call =
    CallMouseEnter
  | CallMouseLeave
  | CallOnClick mouse_event layout
  | CallMouseDown mouse_event layout
  | CallMouseUp
  | CallSetValueByEvent mouse_event layout

fun invoke :: "slider \<Rightarrow> handler_call \<Rightarrow> slider" where
  "invoke s CallMouseEnter = handelMouseEnter s"
| "invoke s CallMouseLeave = handelMouseLeave s"
| "invoke s (CallOnClick e lay) = handelOnClick e lay s"
| "invoke s (CallMouseDown e lay) = handelMouseDown e lay s"
| "invoke s CallMouseUp = handelMouseUp s"
| "invoke s (CallSetValueByEvent e lay) = setValueByEvent e lay s"

fun is_ratio_call :: "callback_call \<Rightarrow> bool" where
  "is_ratio_call (OnChangeValueRatio _) = True"
| "is_ratio_call (OnChangeValue _) = False"

text \<open>
  The spec's words for the slider, to compare the code with: the ratio of the initial
  state, and the clamp of the pointer's position.
\<close>

definition spec_initial_ratio :: "slider_props \<Rightarrow> jsnum" where
  "spec_initial_ratio p =
     js_div (js_sub (initValue p) (minValue p)) (js_sub (maxValue p) (minValue p))"

definition spec_clamp :: "jsnum \<Rightarrow> jsnum \<Rightarrow> jsnum \<Rightarrow> jsnum" where
  "spec_clamp x lo hi = js_max lo (js_min hi x)"

definition spec_ratio :: "jsnum \<Rightarrow> layout \<Rightarrow> jsnum" where
  "spec_ratio pointerX lay =
     spec_clamp (js_div (js_sub pointerX (rootLeft lay))
                        (js_sub (rootWidth lay) (controllerElmWidth lay)))
                (Num 0) (Num 1)"


section \<open>CommandBar\<close>

text \<open>
  The props that decide the expansion state and the heights (\<open>DataProps\<close> of the command
  bar), after React has filled in \<open>defaultProps\<close> (\<open>labelPosition\<close> "bottom",
  \<open>verticalPosition\<close> "top"). An optional prop that has no default is an option. Of a
  command only its element type is kept.
\<close>

datatype label_position = LabelRight | LabelBottom | LabelCollapsed

datatype vertical_position = VerticalTop | VerticalBottom

datatype flow_direction = RowReverse | Row

datatype element_type = AppBarButton | AppBarSeparator | OtherElement

record commandbar_props =
  primaryCommands :: "element_type list option"
  secondaryCommands :: "element_type list option"
  labelPosition :: label_position
  expanded :: "bool option"
  flowDirection :: "flow_direction option"
  isMinimal :: "bool option"
  verticalPosition :: vertical_position

text \<open>
  The component instance: props, the state \<open>currExpanded\<close>, and the number of
  \<open>setState\<close> calls made so far (each asks React for a new render pass). \<open>setState\<close>
  is applied at once.
\<close>

record commandbar =
  cb_props :: commandbar_props
  currExpanded :: "bool option"
  setStateCalls :: nat

definition CommandBar_new :: "commandbar_props \<Rightarrow> commandbar" where
  "CommandBar_new p = \<lparr>cb_props = p, currExpanded = expanded p, setStateCalls = 0\<rparr>"

definition componentWillReceiveProps :: "commandbar_props \<Rightarrow> commandbar \<Rightarrow> commandbar" where
  "componentWillReceiveProps nextProps c =
     (if currExpanded c \<noteq> expanded nextProps
      then c\<lparr>currExpanded := expanded nextProps, setStateCalls := Suc (setStateCalls c)\<rparr>
      else c)"

text \<open>
  A props update as React performs it: \<open>componentWillReceiveProps\<close> runs on the old
  props, then the new props are installed and the component renders.
\<close>

definition receiveProps :: "commandbar_props \<Rightarrow> commandbar \<Rightarrow> commandbar" where
  "receiveProps nextProps c = (componentWillReceiveProps nextProps c)\<lparr>cb_props := nextProps\<rparr>"

text \<open>
  The argument of \<open>toggleExpanded\<close>: a boolean, or anything else (the click event that
  \<open>onClick\<close> passes, or nothing at all).
\<close>

datatype toggle_arg = ArgBoolean bool | ArgOther

fun toggleExpanded :: "toggle_arg \<Rightarrow> commandbar \<Rightarrow> commandbar" where
  "toggleExpanded (ArgBoolean b) c =
     (if Some b \<noteq> currExpanded c
      then c\<lparr>currExpanded := Some b, setStateCalls := Suc (setStateCalls c)\<rparr>
      else c)"
| "toggleExpanded ArgOther c =
     c\<lparr>currExpanded := Some (\<not> truthy (currExpanded c)),
       setStateCalls := Suc (setStateCalls c)\<rparr>"

text \<open>The sizes and offsets that \<open>getStyles\<close> computes (lengths in pixels).\<close>

datatype css_height = Auto | Px nat

record commandbar_styles =
  wrapper_height :: css_height
  root_height :: nat
  content_height :: nat
  moreLegacy_height :: nat
  secondaryCommands_right :: "nat option"
  secondaryCommands_left :: "nat option"
  secondaryCommands_top :: "nat option"
  secondaryCommands_bottom :: "nat option"
  secondaryCommands_opacity :: nat

definition getStyles :: "commandbar \<Rightarrow> commandbar_styles" where
  "getStyles commandBar =
     (let p = cb_props commandBar;
          inBottom = (verticalPosition p \<noteq> VerticalTop);
          notChangeHeight = (labelPosition p \<noteq> LabelBottom);
          isReverse = (flowDirection p = Some RowReverse);
          defaultHeight = (if truthy (isMinimal p) then 24 else 48);
          expandedHeight = 72;
          changedHeight =
            (if truthy (isMinimal p)
             then (if truthy (currExpanded commandBar)
                   then (if notChangeHeight then 48 else 72) else defaultHeight)
             else (if truthy (currExpanded commandBar) \<and> \<not> notChangeHeight
                      \<and> primaryCommands p \<noteq> None
                   then expandedHeight else defaultHeight))
      in \<lparr>wrapper_height = (if inBottom then Auto else Px defaultHeight),
          root_height = changedHeight,
          content_height = defaultHeight,
          moreLegacy_height = changedHeight,
          secondaryCommands_right = (if isReverse then None else Some 0),
          secondaryCommands_left = (if isReverse then Some 0 else None),
          secondaryCommands_top = (if inBottom then None else Some changedHeight),
          secondaryCommands_bottom = (if inBottom then Some changedHeight else None),
          secondaryCommands_opacity = (if truthy (currExpanded commandBar) then 1 else 0)\<rparr>)"

text \<open>An example: a minimal bar with one button, labels to the right, not expanded.\<close>

definition minimal_right_props :: commandbar_props where
  "minimal_right_props =
     \<lparr>primaryCommands = Some [AppBarButton], secondaryCommands = None,
      labelPosition = LabelRight, expanded = Some False, flowDirection = None,
      isMinimal = Some True, verticalPosition = VerticalTop\<rparr>"

section \<open>Image\<close>

text \<open>
  A node a caller can pass as \<open>placeholder\<close>: a text or an element. The empty text is
  falsy, an element is truthy.
\<close>

datatype node = NText string | NElement string

fun truthy_node :: "node \<Rightarrow> bool" where
  "truthy_node (NText t) = (t \<noteq> [])"
| "truthy_node (NElement _) = True"

text \<open>
  The props of the image, after React has filled in \<open>defaultProps\<close>; \<open>resize\<close> and
  \<open>debounce\<close> have no default. Of the attributes that \<open>render\<close> passes on, the three
  it reads are kept: \<open>src\<close>, \<open>height\<close> and \<open>placeholder\<close>.
\<close>

record attributes =
  src :: "string option"
  height :: "nat option"
  placeholder :: "node option"

record image_props = attributes +
  isLazyLoad :: bool
  useDivContainer :: bool
  once :: bool
  scroll :: bool
  offset :: int
  overflow :: bool
  resize :: "bool option"
  debounce :: "int option"
  throttle :: int

definition Image_defaultProps :: image_props where
  "Image_defaultProps =
     \<lparr>src = None, height = None, placeholder = None,
      isLazyLoad = True, useDivContainer = False, once = False, scroll = True,
      offset = 0, overflow = False, resize = None, debounce = None, throttle = 60\<rparr>"

text \<open>The options handed to the lazy-visibility component.\<close>

record lazy_options =
  lazy_once :: bool
  lazy_scroll :: bool
  lazy_offset :: int
  lazy_overflow :: bool
  lazy_resize :: "bool option"
  lazy_debounce :: "int option"
  lazy_throttle :: int

text \<open>
  What \<open>render\<close> returns: the caller's placeholder node, the default \<open>Placeholder\<close>
  with the attributes, a \<open>div\<close> with its background, an \<open>img\<close> (whose \<open>onError\<close> is
  \<open>errorHandler\<close>), or \<open>ReactLazyLoad\<close> with its options, height, placeholder and
  child. \<open>None\<close> is \<open>null\<close>.
\<close>

datatype velement =
    Custom node
  | Placeholder attributes
  | Div attributes string
  | Img attributes
  | ReactLazyLoad lazy_options "nat option" velement velement

record image =
  img_props :: image_props
  showEmptyImage :: bool

definition Image_new :: "image_props \<Rightarrow> image" where
  "Image_new p = \<lparr>img_props = p, showEmptyImage = False\<rparr>"

definition errorHandler :: "image \<Rightarrow> image" where
  "errorHandler i = i\<lparr>showEmptyImage := True\<rparr>"

text \<open>The rest of the props after the destructuring of \<open>render\<close>.\<close>

definition rest_attributes :: "image_props \<Rightarrow> attributes" where
  "rest_attributes p = \<lparr>src = src p, height = height p, placeholder = placeholder p\<rparr>"

definition placeholder_of :: "attributes \<Rightarrow> velement" where
  "placeholder_of a =
     (case placeholder a of
        None \<Rightarrow> Placeholder a
      | Some n \<Rightarrow> if truthy_node n then Custom n else Placeholder a)"

definition ImageOrDiv :: "image_props \<Rightarrow> velement" where
  "ImageOrDiv p =
     (if useDivContainer p
      then Div (rest_attributes p)
             (''url('' @ (case src p of None \<Rightarrow> ''undefined'' | Some u \<Rightarrow> u)
                @ '') no-repeat center center / contain'')
      else Img (rest_attributes p))"

text \<open>
  The options of \<open>ReactLazyLoad\<close>, attribute after attribute: the spread of the caller's
  seven options first, then \<open>once={false}\<close> and \<open>offset={offset}\<close> over it.
\<close>

definition lazy_options_of :: "image_props \<Rightarrow> lazy_options" where
  "lazy_options_of p =
     \<lparr>lazy_once = once p, lazy_scroll = scroll p, lazy_offset = offset p,
      lazy_overflow = overflow p, lazy_resize = resize p, lazy_debounce = debounce p,
      lazy_throttle = throttle p\<rparr>
     \<lparr>lazy_once := False, lazy_offset := offset p\<rparr>"

definition render :: "image \<Rightarrow> velement option" where
  "render i =
     (let p = img_props i; a = rest_attributes p
      in if \<not> truthy_str (src a) \<or> showEmptyImage i
         then (if isLazyLoad p then Some (placeholder_of a) else None)
         else if isLazyLoad p
         then Some (ReactLazyLoad (lazy_options_of p) (height a) (placeholder_of a) (ImageOrDiv p))
         else Some (ImageOrDiv p))"

text \<open>
  What can happen to a mounted image: its \<open>img\<close> fails to load, React installs new
  props (the component has no hook of its own for that, so the state stays), or it renders.
\<close>

datatype image_op = LoadError | ReceiveProps image_props | Render

fun image_step :: "image \<Rightarrow> image_op \<Rightarrow> image" where
  "image_step i LoadError = errorHandler i"
| "image_step i (ReceiveProps nextProps) = i\<lparr>img_props := nextProps\<rparr>"
| "image_step i Render = i"

text \<open>The \<open>once\<close> option that a rendered tree hands to \<open>ReactLazyLoad\<close>, if it has one.\<close>

fun once_passed :: "velement option \<Rightarrow> bool option" where
  "once_passed (Some (ReactLazyLoad opts _ _ _)) = Some (lazy_once opts)"
| "once_passed _ = None"

section \<open>Properties of the slider\<close>

subsection \<open>The value update\<close>

lemma js_mul_commute: "js_mul a b = js_mul b a"
  by (cases a; cases b) (simp_all add: mult.commute)

lemma code_clamp_eq_spec_clamp:
  "(if js_lt raw (Num 0) then Num 0 else if js_gt raw (Num 1) then Num 1 else raw)
     = spec_clamp raw (Num 0) (Num 1)"
  by (cases raw) (auto simp: spec_clamp_def js_gt_def)

lemma valueRatio_setValueByEvent:
  "valueRatio (setValueByEvent e lay s) = spec_ratio (clientX e) lay"
  unfolding spec_ratio_def code_clamp_eq_spec_clamp [symmetric]
  by (simp add: setValueByEvent_def Let_def)

lemma currValue_setValueByEvent:
  "currValue (setValueByEvent e lay s) =
     js_add (minValue (props s))
       (js_mul (js_sub (maxValue (props s)) (minValue (props s))) (valueRatio (setValueByEvent e lay s)))"
  by (simp add: setValueByEvent_def Let_def)

lemma calls_setValueByEvent:
  "calls (setValueByEvent e lay s) = calls s @ [OnChangeValue (currValue (setValueByEvent e lay s))]"
  by (simp add: setValueByEvent_def Let_def)


lemma spec_ratio_finite:
  assumes "rootLeft lay = Num l" "rootWidth lay = Num w" "controllerElmWidth lay = Num c" "c < w"
  shows "spec_ratio (Num x) lay = Num (max 0 (min 1 ((x - l) / (w - c))))"
  using assms by (simp add: spec_ratio_def spec_clamp_def js_sub_def max_def min_def)

lemma spec_ratio_left:
  assumes "rootLeft lay = Num l" "rootWidth lay = Num w" "controllerElmWidth lay = Num c" "c < w"
    and "x \<le> l"
  shows "spec_ratio (Num x) lay = Num 0"
proof -
  have "(x - l) / (w - c) \<le> 0"
    using assms by (simp add: divide_le_0_iff)
  then show ?thesis
    using assms by (simp add: spec_ratio_finite)
qed

lemma spec_ratio_right:
  assumes "rootLeft lay = Num l" "rootWidth lay = Num w" "controllerElmWidth lay = Num c"
    and "0 \<le> c" "c < w" and "l + w \<le> x"
  shows "spec_ratio (Num x) lay = Num 1"
proof -
  have "w - c \<le> x - l" using assms by simp
  then have "1 \<le> (x - l) / (w - c)"
    using assms by (simp add: le_divide_eq)
  then show ?thesis
    using assms by (simp add: spec_ratio_finite)
qed

lemma spec_ratio_mono:
  assumes "rootLeft lay = Num l" "rootWidth lay = Num w" "controllerElmWidth lay = Num c"
    and "c < w" and "x \<le> y"
  shows "\<exists>r1 r2. spec_ratio (Num x) lay = Num r1 \<and> spec_ratio (Num y) lay = Num r2 \<and> r1 \<le> r2"
proof -
  have "(x - l) / (w - c) \<le> (y - l) / (w - c)"
    using assms by (simp add: divide_right_mono)
  then have "max 0 (min 1 ((x - l) / (w - c))) \<le> max 0 (min 1 ((y - l) / (w - c)))"
    by (simp add: max_def min_def)
  then show ?thesis
    using assms by (simp add: spec_ratio_finite)
qed

subsection \<open>The callback log\<close>

lemma ratio_calls_setValueByEvent:
  "filter is_ratio_call (calls (setValueByEvent e lay s)) = filter is_ratio_call (calls s)"
  by (simp add: setValueByEvent_def Let_def)

lemma ratio_calls_invoke:
  "filter is_ratio_call (calls (invoke s h)) = filter is_ratio_call (calls s)"
  by (cases h)
     (simp_all add: handelMouseEnter_def handelMouseLeave_def handelOnClick_def
        handelMouseDown_def handelMouseUp_def ratio_calls_setValueByEvent)

lemma ratio_calls_dispatch:
  "filter is_ratio_call (calls (dispatch s ev)) = filter is_ratio_call (calls s)"
  by (cases ev)
     (simp_all add: handelMouseEnter_def handelMouseLeave_def Let_def
        handelMouseDown_def handelMouseUp_def ratio_calls_setValueByEvent)

lemma ratio_calls_foldl_invoke:
  "filter is_ratio_call (calls (foldl invoke s hs)) = filter is_ratio_call (calls s)"
  by (induction hs arbitrary: s) (simp_all add: ratio_calls_invoke)

lemma ratio_calls_foldl_dispatch:
  "filter is_ratio_call (calls (foldl dispatch s es)) = filter is_ratio_call (calls s)"
  by (induction es arbitrary: s) (simp_all add: ratio_calls_dispatch)

subsection \<open>Listeners and the body style during a drag\<close>













subsection \<open>The initial state\<close>

text \<open>
  C1. The initial state seeds \<open>currValue\<close> with \<open>initValue\<close>, and the spec derives
  \<open>valueRatio\<close> as \<open>(initValue - minValue) / (maxValue - minValue)\<close>. The code divides
  \<open>initValue\<close> itself by the range: with \<open>minValue = 10\<close>, \<open>maxValue = 20\<close> and
  \<open>initValue = 15\<close> it seeds the ratio \<open>3/2\<close> where the spec's formula gives \<open>1/2\<close>.
  With the default props (0, 100, 50) the two agree on \<open>1/2\<close>.
\<close>

theorem Slider_initial_ratio_ignores_minValue:
  "valueRatio (Slider_new
       (Slider_defaultProps\<lparr>minValue := Num 10, maxValue := Num 20, initValue := Num 15\<rparr>) body ls)
     = Num (3 / 2)
   \<and> spec_initial_ratio
       (Slider_defaultProps\<lparr>minValue := Num 10, maxValue := Num 20, initValue := Num 15\<rparr>)
     = Num (1 / 2)
   \<and> valueRatio (Slider_new Slider_defaultProps body ls) = Num (1 / 2)
   \<and> currValue (Slider_new p body ls) = initValue p"
  by (simp add: Slider_new_def Slider_defaultProps_def spec_initial_ratio_def js_sub_def)

subsection \<open>The ratio and the value at a pointer position\<close>

text \<open>
  C2. For every event and layout, \<open>setValueByEvent\<close> leaves the ratio
  \<open>clamp((pointerX - trackLeft) / (trackWidth - controllerWidth), 0, 1)\<close> in the state, sets
  \<open>currValue\<close> to \<open>minValue + ratio * (maxValue - minValue)\<close>, and calls \<open>onChangeValue\<close>
  once, with that value. When the layout is finite and the track is wider than the
  controller (\<open>0 \<le> controllerWidth < trackWidth\<close>), a pointer at or left of the track's
  start gives the ratio 0, a pointer at or right of the track's end gives 1, and the ratio
  is monotonic in the pointer's position.
\<close>

theorem setValueByEvent_clamps_and_reports:
  "valueRatio (setValueByEvent e lay s) = spec_ratio (clientX e) lay
   \<and> currValue (setValueByEvent e lay s) =
       js_add (minValue (props s))
         (js_mul (valueRatio (setValueByEvent e lay s))
            (js_sub (maxValue (props s)) (minValue (props s))))
   \<and> calls (setValueByEvent e lay s) =
       calls s @ [OnChangeValue (currValue (setValueByEvent e lay s))]
   \<and> (rootLeft lay = Num l \<and> rootWidth lay = Num w \<and> controllerElmWidth lay = Num c
        \<and> 0 \<le> c \<and> c < w \<longrightarrow>
        (\<forall>x. x \<le> l \<longrightarrow> valueRatio (setValueByEvent (e\<lparr>clientX := Num x\<rparr>) lay s) = Num 0)
      \<and> (\<forall>x. l + w \<le> x \<longrightarrow> valueRatio (setValueByEvent (e\<lparr>clientX := Num x\<rparr>) lay s) = Num 1)
      \<and> (\<forall>x y. x \<le> y \<longrightarrow>
            (\<exists>r1 r2. valueRatio (setValueByEvent (e\<lparr>clientX := Num x\<rparr>) lay s) = Num r1
                   \<and> valueRatio (setValueByEvent (e\<lparr>clientX := Num y\<rparr>) lay s) = Num r2
                   \<and> r1 \<le> r2)))"
proof (intro conjI impI allI)
  show "valueRatio (setValueByEvent e lay s) = spec_ratio (clientX e) lay"
    by (rule valueRatio_setValueByEvent)
  show "currValue (setValueByEvent e lay s) =
       js_add (minValue (props s))
         (js_mul (valueRatio (setValueByEvent e lay s))
            (js_sub (maxValue (props s)) (minValue (props s))))"
    by (subst currValue_setValueByEvent) (simp add: js_mul_commute)
  show "calls (setValueByEvent e lay s) =
       calls s @ [OnChangeValue (currValue (setValueByEvent e lay s))]"
    by (rule calls_setValueByEvent)
next
  fix x
  assume "rootLeft lay = Num l \<and> rootWidth lay = Num w \<and> controllerElmWidth lay = Num c
        \<and> 0 \<le> c \<and> c < w" and "x \<le> l"
  then show "valueRatio (setValueByEvent (e\<lparr>clientX := Num x\<rparr>) lay s) = Num 0"
    by (simp add: valueRatio_setValueByEvent spec_ratio_left)
next
  fix x
  assume "rootLeft lay = Num l \<and> rootWidth lay = Num w \<and> controllerElmWidth lay = Num c
        \<and> 0 \<le> c \<and> c < w" and "l + w \<le> x"
  then show "valueRatio (setValueByEvent (e\<lparr>clientX := Num x\<rparr>) lay s) = Num 1"
    by (simp add: valueRatio_setValueByEvent spec_ratio_right)
next
  fix x y :: real
  assume geo: "rootLeft lay = Num l \<and> rootWidth lay = Num w \<and> controllerElmWidth lay = Num c
        \<and> 0 \<le> c \<and> c < w" and "x \<le> y"
  then have "\<exists>r1 r2. spec_ratio (Num x) lay = Num r1 \<and> spec_ratio (Num y) lay = Num r2 \<and> r1 \<le> r2"
    by (intro spec_ratio_mono) auto
  then show "\<exists>r1 r2. valueRatio (setValueByEvent (e\<lparr>clientX := Num x\<rparr>) lay s) = Num r1
                   \<and> valueRatio (setValueByEvent (e\<lparr>clientX := Num y\<rparr>) lay s) = Num r2
                   \<and> r1 \<le> r2"
    by (simp add: valueRatio_setValueByEvent)
qed

text \<open>
  The theorem at a track from 10 to 118 with a controller 8 wide, on a fresh slider with
  the default props: a pointer at 35 is a quarter of the way, so the callback gets 25; a
  pointer at 3 gives the ratio 0, a pointer at 120 gives 1.
\<close>

theorem setValueByEvent_clamps_and_reports_witness:
  "valueRatio (setValueByEvent \<lparr>etype = ''mousedown'', clientX = Num 35\<rparr>
       \<lparr>rootLeft = Num 10, rootWidth = Num 108, controllerElmWidth = Num 8\<rparr>
       (Slider_new Slider_defaultProps Map.empty [])) = Num (1 / 4)
   \<and> calls (setValueByEvent \<lparr>etype = ''mousedown'', clientX = Num 35\<rparr>
       \<lparr>rootLeft = Num 10, rootWidth = Num 108, controllerElmWidth = Num 8\<rparr>
       (Slider_new Slider_defaultProps Map.empty [])) = [OnChangeValue (Num 25)]
   \<and> valueRatio (setValueByEvent \<lparr>etype = ''mousedown'', clientX = Num 3\<rparr>
       \<lparr>rootLeft = Num 10, rootWidth = Num 108, controllerElmWidth = Num 8\<rparr>
       (Slider_new Slider_defaultProps Map.empty [])) = Num 0
   \<and> valueRatio (setValueByEvent \<lparr>etype = ''mousedown'', clientX = Num 120\<rparr>
       \<lparr>rootLeft = Num 10, rootWidth = Num 108, controllerElmWidth = Num 8\<rparr>
       (Slider_new Slider_defaultProps Map.empty [])) = Num 1"
  using setValueByEvent_clamps_and_reports
      [of "\<lparr>etype = ''mousedown'', clientX = Num 35\<rparr>"
          "\<lparr>rootLeft = Num 10, rootWidth = Num 108, controllerElmWidth = Num 8\<rparr>"
          "Slider_new Slider_defaultProps Map.empty []" 10 108 8]
  by (simp add: spec_ratio_def spec_clamp_def js_sub_def Slider_new_def Slider_defaultProps_def)

text \<open>
  Without the condition on the layout the claim fails: on a track 4 wide with a controller
  8 wide, a pointer 4 to the left of the track's start gives the ratio 1, not 0.
\<close>

theorem setValueByEvent_narrow_track_counterexample:
  "js_lt (Num (- 4)) (rootLeft \<lparr>rootLeft = Num 0, rootWidth = Num 4, controllerElmWidth = Num 8\<rparr>)
   \<and> valueRatio (setValueByEvent \<lparr>etype = ''mousemove'', clientX = Num (- 4)\<rparr>
         \<lparr>rootLeft = Num 0, rootWidth = Num 4, controllerElmWidth = Num 8\<rparr>
         (Slider_new Slider_defaultProps Map.empty [])) = Num 1
   \<and> valueRatio (setValueByEvent \<lparr>etype = ''mousemove'', clientX = Num (- 4)\<rparr>
         \<lparr>rootLeft = Num 0, rootWidth = Num 4, controllerElmWidth = Num 8\<rparr>
         (Slider_new Slider_defaultProps Map.empty [])) \<noteq> Num 0"
  by (simp add: setValueByEvent_def Let_def js_sub_def js_gt_def Slider_new_def Slider_defaultProps_def)

subsection \<open>A drag session\<close>



subsection \<open>The callbacks\<close>

text \<open>
  C10. The slider never calls \<open>onChangeValueRatio\<close>: whatever methods are called and
  whatever events are delivered, in any order, the calls of \<open>onChangeValueRatio\<close> in the
  log are the ones that were there before, and none for a fresh slider. Each of
  \<open>setValueByEvent\<close>, \<open>handelOnClick\<close> and \<open>handelMouseDown\<close> adds one call, of
  \<open>onChangeValue\<close> with the new \<open>currValue\<close>; \<open>handelMouseUp\<close> adds none.
\<close>

theorem onChangeValueRatio_never_called:
  "filter is_ratio_call (calls (foldl invoke s hs)) = filter is_ratio_call (calls s)
   \<and> filter is_ratio_call (calls (foldl dispatch s es)) = filter is_ratio_call (calls s)
   \<and> filter is_ratio_call (calls (foldl invoke (Slider_new p body ls) hs)) = []
   \<and> filter is_ratio_call (calls (foldl dispatch (Slider_new p body ls) es)) = []
   \<and> calls (setValueByEvent e lay s) =
       calls s @ [OnChangeValue (currValue (setValueByEvent e lay s))]
   \<and> calls (handelOnClick e lay s) =
       calls s @ [OnChangeValue (currValue (handelOnClick e lay s))]
   \<and> calls (handelMouseDown e lay s) =
       calls s @ [OnChangeValue (currValue (handelMouseDown e lay s))]
   \<and> calls (handelMouseUp s) = calls s"
proof -
  have fresh: "calls (Slider_new p body ls) = []"
    by (simp add: Slider_new_def)
  have down: "calls (handelMouseDown e lay s) =
       calls s @ [OnChangeValue (currValue (handelMouseDown e lay s))]"
    unfolding handelMouseDown_def by (subst calls_setValueByEvent) simp
  have up: "calls (handelMouseUp s) = calls s"
    by (simp add: handelMouseUp_def)
  show ?thesis
    using down up
    by (simp add: ratio_calls_foldl_invoke ratio_calls_foldl_dispatch fresh handelOnClick_def
          calls_setValueByEvent [symmetric])
qed

text \<open>
  The theorem at a fresh slider with the default props, on a track from 10 to 118 with a
  controller 8 wide: a mouse down at 35 and a move to 62 call \<open>onChangeValue\<close> with 25
  and with 52; after the mouse up, a click and a further move call nothing.
\<close>

theorem onChangeValueRatio_never_called_witness:
  "calls (foldl dispatch (Slider_new Slider_defaultProps Map.empty [])
       [MouseDown (Num 35) \<lparr>rootLeft = Num 10, rootWidth = Num 108, controllerElmWidth = Num 8\<rparr>,
        MouseMove (Num 62) \<lparr>rootLeft = Num 10, rootWidth = Num 108, controllerElmWidth = Num 8\<rparr>,
        MouseUp True,
        Click (Num 62) \<lparr>rootLeft = Num 10, rootWidth = Num 108, controllerElmWidth = Num 8\<rparr>,
        MouseMove (Num 80) \<lparr>rootLeft = Num 10, rootWidth = Num 108, controllerElmWidth = Num 8\<rparr>])
     = [OnChangeValue (Num 25), OnChangeValue (Num 52)]
   \<and> filter is_ratio_call
        (calls (foldl dispatch (Slider_new Slider_defaultProps Map.empty [])
       [MouseDown (Num 35) \<lparr>rootLeft = Num 10, rootWidth = Num 108, controllerElmWidth = Num 8\<rparr>,
        MouseMove (Num 62) \<lparr>rootLeft = Num 10, rootWidth = Num 108, controllerElmWidth = Num 8\<rparr>,
        MouseUp True,
        Click (Num 62) \<lparr>rootLeft = Num 10, rootWidth = Num 108, controllerElmWidth = Num 8\<rparr>,
        MouseMove (Num 80) \<lparr>rootLeft = Num 10, rootWidth = Num 108, controllerElmWidth = Num 8\<rparr>]))
     = []"
  using onChangeValueRatio_never_called
    [of "Slider_new Slider_defaultProps Map.empty []" "[]"
       "[MouseDown (Num 35) \<lparr>rootLeft = Num 10, rootWidth = Num 108, controllerElmWidth = Num 8\<rparr>,
        MouseMove (Num 62) \<lparr>rootLeft = Num 10, rootWidth = Num 108, controllerElmWidth = Num 8\<rparr>,
        MouseUp True,
        Click (Num 62) \<lparr>rootLeft = Num 10, rootWidth = Num 108, controllerElmWidth = Num 8\<rparr>,
        MouseMove (Num 80) \<lparr>rootLeft = Num 10, rootWidth = Num 108, controllerElmWidth = Num 8\<rparr>]"
       Slider_defaultProps Map.empty "[]"]
  by (simp add: Slider_new_def Slider_defaultProps_def handelMouseDown_def handelMouseUp_def
        setValueByEvent_def Let_def js_sub_def js_gt_def addEventListener_def
        removeEventListener_def)

section \<open>Properties of the command bar\<close>

lemma root_height_getStyles:
  "root_height (getStyles c) =
     (if truthy (isMinimal (cb_props c))
      then (if truthy (currExpanded c)
            then (if labelPosition (cb_props c) = LabelBottom then 72 else 48) else 24)
      else (if truthy (currExpanded c) \<and> labelPosition (cb_props c) = LabelBottom
               \<and> primaryCommands (cb_props c) \<noteq> None then 72 else 48))"
  by (auto simp: getStyles_def Let_def)

text \<open>
  C3. The height of the bar (\<open>changedHeight\<close>, the height of the root element) is 24,
  48 or 72. A minimal bar that is not expanded has 24. A bar that is not minimal has the
  default height 48, and 72 instead exactly when it is expanded, the label position is
  "bottom" and \<open>primaryCommands\<close> is given. An expanded bar with label position "bottom"
  and \<open>primaryCommands\<close> given has 72, minimal or not. Two bars that agree on whether they
  are minimal, on the label position, on whether they are expanded and on whether
  \<open>primaryCommands\<close> is given have the same height. A minimal bar with label position
  "right" that is not expanded has 24.
\<close>

theorem commandbar_height_table:
  "root_height (getStyles c) \<in> {24, 48, 72}
   \<and> (truthy (isMinimal (cb_props c)) \<and> \<not> truthy (currExpanded c) \<longrightarrow>
        root_height (getStyles c) = 24)
   \<and> (\<not> truthy (isMinimal (cb_props c)) \<longrightarrow>
        content_height (getStyles c) = 48
        \<and> root_height (getStyles c) =
            (if truthy (currExpanded c) \<and> labelPosition (cb_props c) = LabelBottom
                \<and> primaryCommands (cb_props c) \<noteq> None then 72 else 48))
   \<and> (truthy (currExpanded c) \<and> labelPosition (cb_props c) = LabelBottom
        \<and> primaryCommands (cb_props c) \<noteq> None \<longrightarrow> root_height (getStyles c) = 72)
   \<and> (truthy (isMinimal (cb_props c)) = truthy (isMinimal (cb_props c'))
        \<and> labelPosition (cb_props c) = labelPosition (cb_props c')
        \<and> truthy (currExpanded c) = truthy (currExpanded c')
        \<and> (primaryCommands (cb_props c) = None) = (primaryCommands (cb_props c') = None) \<longrightarrow>
        root_height (getStyles c) = root_height (getStyles c'))
   \<and> (isMinimal (cb_props c) = Some True \<and> labelPosition (cb_props c) = LabelRight
        \<and> currExpanded c = Some False \<longrightarrow> root_height (getStyles c) = 24)"
proof (intro conjI impI)
  show "root_height (getStyles c) \<in> {24, 48, 72}"
    by (simp add: root_height_getStyles)
next
  assume "truthy (isMinimal (cb_props c)) \<and> \<not> truthy (currExpanded c)"
  then show "root_height (getStyles c) = 24"
    by (simp add: root_height_getStyles)
next
  assume "\<not> truthy (isMinimal (cb_props c))"
  then show "content_height (getStyles c) = 48"
    by (simp add: getStyles_def Let_def)
next
  assume "\<not> truthy (isMinimal (cb_props c))"
  then show "root_height (getStyles c) =
            (if truthy (currExpanded c) \<and> labelPosition (cb_props c) = LabelBottom
                \<and> primaryCommands (cb_props c) \<noteq> None then 72 else 48)"
    by (simp add: root_height_getStyles)
next
  assume "truthy (currExpanded c) \<and> labelPosition (cb_props c) = LabelBottom
        \<and> primaryCommands (cb_props c) \<noteq> None"
  then show "root_height (getStyles c) = 72"
    by (simp add: root_height_getStyles)
next
  assume "truthy (isMinimal (cb_props c)) = truthy (isMinimal (cb_props c'))
        \<and> labelPosition (cb_props c) = labelPosition (cb_props c')
        \<and> truthy (currExpanded c) = truthy (currExpanded c')
        \<and> (primaryCommands (cb_props c) = None) = (primaryCommands (cb_props c') = None)"
  then show "root_height (getStyles c) = root_height (getStyles c')"
    by (simp add: root_height_getStyles)
next
  assume "isMinimal (cb_props c) = Some True \<and> labelPosition (cb_props c) = LabelRight
        \<and> currExpanded c = Some False"
  then show "root_height (getStyles c) = 24"
    by (simp add: root_height_getStyles)
qed

text \<open>
  The theorem at the minimal bar with labels to the right: 24 when not expanded, 48 once
  toggled; a bar that is not minimal, with labels at the bottom and commands, has default
  height 48 and 72 once toggled.
\<close>

theorem commandbar_height_table_witness:
  "root_height (getStyles (CommandBar_new minimal_right_props)) = 24
   \<and> root_height (getStyles (toggleExpanded ArgOther (CommandBar_new minimal_right_props))) = 48
   \<and> root_height (getStyles (toggleExpanded ArgOther
        (CommandBar_new (minimal_right_props\<lparr>labelPosition := LabelBottom, isMinimal := None\<rparr>)))) = 72
   \<and> content_height (getStyles
        (CommandBar_new (minimal_right_props\<lparr>labelPosition := LabelBottom, isMinimal := None\<rparr>))) = 48"
  using commandbar_height_table [of "CommandBar_new minimal_right_props" "CommandBar_new minimal_right_props"]
    commandbar_height_table [of "toggleExpanded ArgOther
        (CommandBar_new (minimal_right_props\<lparr>labelPosition := LabelBottom, isMinimal := None\<rparr>))"
       "CommandBar_new minimal_right_props"]
    commandbar_height_table [of "CommandBar_new (minimal_right_props\<lparr>labelPosition := LabelBottom, isMinimal := None\<rparr>)"
       "CommandBar_new minimal_right_props"]
  by (simp add: CommandBar_new_def minimal_right_props_def root_height_getStyles)

text \<open>
  C5. \<open>toggleExpanded\<close> with an argument that is not a boolean flips \<open>currExpanded\<close>
  (an \<open>undefined\<close> state counts as false). With a boolean \<open>b\<close> it leaves the state at
  exactly \<open>b\<close>, and when the state is \<open>b\<close> already the component is unchanged: no
  \<open>setState\<close> is made.
\<close>

theorem toggleExpanded_flips_or_sets:
  "currExpanded (toggleExpanded ArgOther c) = Some (\<not> truthy (currExpanded c))
   \<and> currExpanded (toggleExpanded (ArgBoolean b) c) = Some b
   \<and> (currExpanded c = Some b \<longrightarrow> toggleExpanded (ArgBoolean b) c = c)"
  by simp

text \<open>
  The theorem at the bar constructed from the example props, whose state is false:
  setting false changes nothing, toggling and setting true both give true.
\<close>

theorem toggleExpanded_flips_or_sets_witness:
  "currExpanded (CommandBar_new minimal_right_props) = Some False
   \<and> toggleExpanded (ArgBoolean False) (CommandBar_new minimal_right_props)
       = CommandBar_new minimal_right_props
   \<and> currExpanded (toggleExpanded ArgOther (CommandBar_new minimal_right_props)) = Some True
   \<and> currExpanded (toggleExpanded (ArgBoolean True) (CommandBar_new minimal_right_props)) = Some True"
  using toggleExpanded_flips_or_sets [of "CommandBar_new minimal_right_props" False]
    toggleExpanded_flips_or_sets [of "CommandBar_new minimal_right_props" True]
  by (simp add: CommandBar_new_def minimal_right_props_def)

text \<open>
  C6. After a props update the state \<open>currExpanded\<close> is the \<open>expanded\<close> of the new
  props, whatever the state was and however often it was toggled before; the new props
  are the ones the next render reads.
\<close>

theorem expanded_prop_resynchronises:
  "currExpanded (receiveProps nextProps (foldl (\<lambda>c a. toggleExpanded a c) c args)) = expanded nextProps
   \<and> cb_props (receiveProps nextProps (foldl (\<lambda>c a. toggleExpanded a c) c args)) = nextProps
   \<and> currExpanded (componentWillReceiveProps nextProps c) = expanded nextProps"
  by (simp add: receiveProps_def componentWillReceiveProps_def)

text \<open>
  The theorem at the bar constructed from the example props and toggled to true: a props
  update with \<open>expanded\<close> false sets the state to false, one with \<open>expanded\<close> left out
  sets it to \<open>undefined\<close>.
\<close>

theorem expanded_prop_resynchronises_witness:
  "currExpanded (toggleExpanded ArgOther (CommandBar_new minimal_right_props)) = Some True
   \<and> currExpanded (receiveProps minimal_right_props
        (toggleExpanded ArgOther (CommandBar_new minimal_right_props))) = Some False
   \<and> currExpanded (receiveProps (minimal_right_props\<lparr>expanded := None\<rparr>)
        (toggleExpanded ArgOther (CommandBar_new minimal_right_props))) = None"
  using expanded_prop_resynchronises
      [of minimal_right_props "CommandBar_new minimal_right_props" "[ArgOther]"]
    expanded_prop_resynchronises
      [of "minimal_right_props\<lparr>expanded := None\<rparr>" "CommandBar_new minimal_right_props" "[ArgOther]"]
  by (simp add: CommandBar_new_def minimal_right_props_def)

section \<open>Properties of the image\<close>

lemma showEmptyImage_step: "showEmptyImage i \<Longrightarrow> showEmptyImage (image_step i op)"
  by (cases op) (simp_all add: errorHandler_def)

lemma showEmptyImage_steps: "showEmptyImage i \<Longrightarrow> showEmptyImage (foldl image_step i ops)"
  by (induction ops arbitrary: i) (simp_all add: showEmptyImage_step)

text \<open>
  C7. \<open>errorHandler\<close> sets \<open>showEmptyImage\<close>, and once it is set it stays set through
  every sequence of load errors, props updates (of \<open>src\<close> or anything else) and renders.
\<close>

theorem showEmptyImage_is_terminal:
  "showEmptyImage (errorHandler i)
   \<and> showEmptyImage (foldl image_step (errorHandler i) ops)
   \<and> (showEmptyImage i \<longrightarrow> showEmptyImage (foldl image_step i ops))"
proof (intro conjI impI)
  show failed: "showEmptyImage (errorHandler i)"
    by (simp add: errorHandler_def)
  then show "showEmptyImage (foldl image_step (errorHandler i) ops)"
    by (rule showEmptyImage_steps)
next
  assume "showEmptyImage i"
  then show "showEmptyImage (foldl image_step i ops)"
    by (rule showEmptyImage_steps)
qed

text \<open>
  The theorem at an image whose source fails to load and is then given another source:
  the flag is false at first, true after the failure, and still true after the update.
\<close>

theorem showEmptyImage_is_terminal_witness:
  "showEmptyImage (image_step (Image_new (Image_defaultProps\<lparr>src := Some ''a.png''\<rparr>)) LoadError)
   \<and> showEmptyImage
       (foldl image_step (image_step (Image_new (Image_defaultProps\<lparr>src := Some ''a.png''\<rparr>)) LoadError)
          [Render, ReceiveProps (Image_defaultProps\<lparr>src := Some ''b.png''\<rparr>), Render])
   \<and> src (img_props
       (foldl image_step (image_step (Image_new (Image_defaultProps\<lparr>src := Some ''a.png''\<rparr>)) LoadError)
          [Render, ReceiveProps (Image_defaultProps\<lparr>src := Some ''b.png''\<rparr>), Render])) = Some ''b.png''
   \<and> \<not> showEmptyImage (Image_new (Image_defaultProps\<lparr>src := Some ''a.png''\<rparr>))"
  using showEmptyImage_is_terminal
    [of "Image_new (Image_defaultProps\<lparr>src := Some ''a.png''\<rparr>)"
        "[Render, ReceiveProps (Image_defaultProps\<lparr>src := Some ''b.png''\<rparr>), Render]"]
    showEmptyImage_is_terminal
    [of "image_step (Image_new (Image_defaultProps\<lparr>src := Some ''a.png''\<rparr>)) LoadError"
        "[Render, ReceiveProps (Image_defaultProps\<lparr>src := Some ''b.png''\<rparr>), Render]"]
  by (simp add: Image_new_def Image_defaultProps_def errorHandler_def)

text \<open>
  C8. When the source is missing (\<open>undefined\<close> or empty) or a load has failed,
  \<open>render\<close> returns the placeholder if \<open>isLazyLoad\<close> is set and \<open>null\<close> otherwise; in
  particular no source and no lazy loading renders \<open>null\<close>.
\<close>

theorem render_without_source_or_after_failure:
  "(\<not> truthy_str (src (img_props i)) \<or> showEmptyImage i \<longrightarrow>
      render i = (if isLazyLoad (img_props i)
                  then Some (placeholder_of (rest_attributes (img_props i))) else None))
   \<and> (src (img_props i) = None \<and> \<not> isLazyLoad (img_props i) \<longrightarrow> render i = None)"
  by (auto simp: render_def Let_def rest_attributes_def)

text \<open>
  The theorem at the default props without a source (with and without lazy loading), and
  at images whose load has failed; an image with a source, no failure and no lazy loading
  renders its \<open>img\<close>.
\<close>

theorem render_without_source_or_after_failure_witness:
  "render (Image_new (Image_defaultProps\<lparr>isLazyLoad := False\<rparr>)) = None
   \<and> render (Image_new Image_defaultProps)
       = Some (Placeholder \<lparr>src = None, height = None, placeholder = None\<rparr>)
   \<and> render (errorHandler (Image_new (Image_defaultProps\<lparr>src := Some ''a.png'', isLazyLoad := False\<rparr>)))
       = None
   \<and> render (errorHandler (Image_new
        (Image_defaultProps\<lparr>src := Some ''a.png'', placeholder := Some (NElement ''spinner'')\<rparr>)))
       = Some (Custom (NElement ''spinner''))
   \<and> render (Image_new (Image_defaultProps\<lparr>src := Some ''a.png'', isLazyLoad := False\<rparr>))
       = Some (Img \<lparr>src = Some ''a.png'', height = None, placeholder = None\<rparr>)"
  using render_without_source_or_after_failure
      [of "Image_new (Image_defaultProps\<lparr>isLazyLoad := False\<rparr>)"]
    render_without_source_or_after_failure [of "Image_new Image_defaultProps"]
    render_without_source_or_after_failure
      [of "errorHandler (Image_new (Image_defaultProps\<lparr>src := Some ''a.png'', isLazyLoad := False\<rparr>))"]
    render_without_source_or_after_failure
      [of "errorHandler (Image_new
        (Image_defaultProps\<lparr>src := Some ''a.png'', placeholder := Some (NElement ''spinner'')\<rparr>))"]
  by (simp add: Image_new_def Image_defaultProps_def errorHandler_def placeholder_of_def
        rest_attributes_def render_def ImageOrDiv_def)

lemma once_passed_placeholder_of: "once_passed (Some (placeholder_of a)) = None"
  by (simp add: placeholder_of_def split: option.splits)

lemma once_passed_ImageOrDiv: "once_passed (Some (ImageOrDiv p)) = None"
  by (simp add: ImageOrDiv_def)

lemma once_passed_render:
  "once_passed (render i) =
     (if isLazyLoad (img_props i) \<and> truthy_str (src (img_props i)) \<and> \<not> showEmptyImage i
      then Some False else None)"
  by (simp add: render_def Let_def rest_attributes_def lazy_options_of_def
        once_passed_placeholder_of once_passed_ImageOrDiv)

lemma render_ignores_once: "render (i\<lparr>img_props := (img_props i)\<lparr>once := b\<rparr>\<rparr>) = render i"
  by (simp add: render_def Let_def rest_attributes_def lazy_options_of_def ImageOrDiv_def)

text \<open>
  C9. \<open>render\<close> never hands \<open>once = true\<close> to \<open>ReactLazyLoad\<close>: when lazy loading is
  enabled (and there is a source and no failure) it hands \<open>once = false\<close>, and what it
  returns does not depend on the caller's \<open>once\<close> at all.
\<close>

theorem once_option_is_overridden:
  "once_passed (render i) \<noteq> Some True
   \<and> (isLazyLoad (img_props i) \<and> truthy_str (src (img_props i)) \<and> \<not> showEmptyImage i \<longrightarrow>
        once_passed (render i) = Some False)
   \<and> render (i\<lparr>img_props := (img_props i)\<lparr>once := b\<rparr>\<rparr>) = render i"
  by (simp add: once_passed_render render_ignores_once)

text \<open>
  The theorem at a caller who asks for \<open>once = true\<close>: \<open>ReactLazyLoad\<close> gets false,
  and the result is the one for the default.
\<close>

theorem once_option_is_overridden_witness:
  "once (img_props (Image_new (Image_defaultProps\<lparr>src := Some ''a.png'', once := True\<rparr>)))
   \<and> once_passed (render (Image_new (Image_defaultProps\<lparr>src := Some ''a.png'', once := True\<rparr>)))
       = Some False
   \<and> render (Image_new (Image_defaultProps\<lparr>src := Some ''a.png'', once := True\<rparr>))
       = render (Image_new (Image_defaultProps\<lparr>src := Some ''a.png''\<rparr>))"
  using once_option_is_overridden
      [of "Image_new (Image_defaultProps\<lparr>src := Some ''a.png'', once := True\<rparr>)" False]
  by (simp add: Image_new_def Image_defaultProps_def)

end
